theory Spec2Isabelle
  imports Main
begin

section \<open>Python values and exceptions\<close>

text \<open>
  The client decodes every response body with \<^verbatim>\<open>response.json()\<close> and stores parts of it
  in its fields, so the fields hold arbitrary decoded values. \<open>PNone\<close> is Python's
  \<^verbatim>\<open>None\<close> (also what JSON \<^verbatim>\<open>null\<close> decodes to); a \<open>PDict\<close> lists the items of a dict, whose
  keys are distinct. Floats do not occur in what the modelled operations inspect and are
  left out.
\<close>

datatype pyval =
    PNone
  | PBool bool
  | PInt int
  | PStr string
  | PList "pyval list"
  | PDict "(string \<times> pyval) list"

text \<open>
  The exception classes of \<^verbatim>\<open>remote.py\<close>, followed by the built-in and library exceptions
  that its statements can raise. \<open>HTTPError\<close> carries the status and the two values its
  message is formatted from (\<^verbatim>\<open>content['code']\<close>, \<^verbatim>\<open>content['message']\<close>); \<open>ApiKeyNotFound\<close>
  carries \<^verbatim>\<open>name\<close> and \<^verbatim>\<open>message\<close>. \<open>NotAContextManager\<close> is what \<^verbatim>\<open>async with None\<close> raises
  (an \<^verbatim>\<open>AttributeError\<close> for \<^verbatim>\<open>__aenter__\<close> before Python 3.11, a \<^verbatim>\<open>TypeError\<close> from 3.11 on);
  \<open>JSONDecodeError\<close> is a body that \<^verbatim>\<open>response.json()\<close> cannot decode; \<open>ClientError\<close> is a
  transport failure (connection refused, timeout).
\<close>

datatype error =
    HTTPError nat pyval pyval
  | AuthenticationError string
  | SystemCommandNotFound string
  | InvalidIRFormat string
  | NoEmitterFound string
  | ApiKeyNotFound string string
  | KeyError string
  | IndexError
  | TypeError
  | ValueError
  | NotAContextManager
  | JSONDecodeError
  | ClientError

text \<open>\<^verbatim>\<open>d[k]\<close> with a string key: \<^verbatim>\<open>KeyError\<close> on a dict without the key, \<^verbatim>\<open>TypeError\<close> on
  anything that is not a dict (a list, a string, a number and \<^verbatim>\<open>None\<close> all reject a string
  index).\<close>

fun subscript :: "pyval \<Rightarrow> string \<Rightarrow> error + pyval" where
  "subscript (PDict kv) k = (case map_of kv k of None \<Rightarrow> Inl (KeyError k) | Some v \<Rightarrow> Inr v)"
| "subscript _ k = Inl TypeError"

text \<open>Truth value of a Python object, as \<^verbatim>\<open>if x:\<close> tests it.\<close>

fun truthy :: "pyval \<Rightarrow> bool" where
  "truthy PNone = False"
| "truthy (PBool b) = b"
| "truthy (PInt n) = (n \<noteq> 0)"
| "truthy (PStr s) = (s \<noteq> [])"
| "truthy (PList xs) = (xs \<noteq> [])"
| "truthy (PDict kv) = (kv \<noteq> [])"

text \<open>What a \<^verbatim>\<open>for\<close> loop iterates over: the elements of a list, the keys of a dict, the
  characters of a string; anything else is not iterable.\<close>

fun py_iter :: "pyval \<Rightarrow> error + pyval list" where
  "py_iter (PList xs) = Inr xs"
| "py_iter (PDict kv) = Inr (map (\<lambda>(k, v). PStr k) kv)"
| "py_iter (PStr s) = Inr (map (\<lambda>c. PStr [c]) s)"
| "py_iter _ = Inl TypeError"

text \<open>\<^verbatim>\<open>"literal" + x\<close>: only a string can be appended to a string.\<close>

fun str_add :: "string \<Rightarrow> pyval \<Rightarrow> error + string" where
  "str_add s (PStr t) = Inr (s @ t)"
| "str_add s _ = Inl TypeError"

text \<open>Sequencing of steps that may raise.\<close>

fun and_then :: "error + 'a \<Rightarrow> ('a \<Rightarrow> error + 'b) \<Rightarrow> error + 'b" where
  "and_then (Inl e) f = Inl e"
| "and_then (Inr x) f = f x"


section \<open>The standard library's \<^verbatim>\<open>urlparse\<close>\<close>

text \<open>
  \<^verbatim>\<open>validate_url\<close> inspects the \<^verbatim>\<open>scheme\<close> and \<^verbatim>\<open>path\<close> that \<^verbatim>\<open>urllib.parse.urlparse\<close> returns.
  The definitions below follow CPython 3.12's \<^verbatim>\<open>urllib/parse.py\<close> (\<^verbatim>\<open>urlsplit\<close>,
  \<^verbatim>\<open>_splitnetloc\<close>, \<^verbatim>\<open>_splitparams\<close>, \<^verbatim>\<open>urlparse\<close>) for \<^verbatim>\<open>str\<close> input with the default arguments.

  A Python \<^verbatim>\<open>str\<close> is held as the bytes of its UTF-8 encoding, so a character beyond ASCII
  is a run of bytes from 0x80 up. Every character these functions search for, strip or
  compare with is ASCII, and no ASCII byte occurs inside such a run, so splitting the
  bytes splits the text at the same places.

  Two checks that the library runs on the authority can raise \<^verbatim>\<open>ValueError\<close> and are not
  computed here: \<^verbatim>\<open>_check_bracketed_netloc\<close>, run on an authority holding both square
  brackets, validates the bracketed address and differs between Python versions; and
  \<^verbatim>\<open>_checknetloc\<close>, which returns at once on an empty or ASCII authority, raises on any other
  whose NFKC normal form holds one of \<^verbatim>\<open>/?#@:\<close>. Both are the parameter \<open>chk\<close>: \<open>chk nl\<close> is
  true when the check the library runs on the authority \<open>nl\<close> raises nothing. It is
  consulted only where the library runs one of the two.
\<close>

record ParseResult =
  scheme :: string
  netloc :: string
  path :: string
  params :: string
  query :: string
  fragment :: string

definition scheme_chars :: string where
  "scheme_chars = ''abcdefghijklmnopqrstuvwxyzABCDEFGHIJKLMNOPQRSTUVWXYZ0123456789+-.''"

definition uses_params :: "string list" where
  "uses_params = ['''', ''ftp'', ''hdl'', ''prospero'', ''http'', ''imap'',
                  ''https'', ''shttp'', ''rtsp'', ''rtsps'', ''rtspu'', ''sip'',
                  ''sips'', ''mms'', ''sftp'', ''tel'']"

definition ascii_letters :: string where
  "ascii_letters = ''abcdefghijklmnopqrstuvwxyzABCDEFGHIJKLMNOPQRSTUVWXYZ''"

text \<open>\<^verbatim>\<open>str.lower\<close> on the characters a scheme can hold.\<close>

definition lower_char :: "char \<Rightarrow> char" where
  "lower_char c =
     (case map_of (zip ''ABCDEFGHIJKLMNOPQRSTUVWXYZ'' ''abcdefghijklmnopqrstuvwxyz'') c of
        None \<Rightarrow> c | Some d \<Rightarrow> d)"

text \<open>\<^verbatim>\<open>_WHATWG_C0_CONTROL_OR_SPACE\<close> is the characters 0x00 to 0x20;
  \<^verbatim>\<open>_UNSAFE_URL_BYTES_TO_REMOVE\<close> is tab, carriage return and line feed.\<close>

definition c0_control_or_space :: "char \<Rightarrow> bool" where
  "c0_control_or_space c = ((of_char c :: nat) \<le> 32)"

definition unsafe_url_byte :: "char \<Rightarrow> bool" where
  "unsafe_url_byte c = ((of_char c :: nat) \<in> {9, 13, 10})"

text \<open>\<^verbatim>\<open>s.split(c, 1)\<close> when \<^verbatim>\<open>c in s\<close>: the text before the first \<open>c\<close> and the text after it.\<close>

definition before_first :: "char \<Rightarrow> string \<Rightarrow> string" where
  "before_first c s = takeWhile (\<lambda>x. x \<noteq> c) s"

definition after_first :: "char \<Rightarrow> string \<Rightarrow> string" where
  "after_first c s = tl (dropWhile (\<lambda>x. x \<noteq> c) s)"

text \<open>\<^verbatim>\<open>str.isascii\<close>: every character is below 0x80.\<close>

definition isascii :: "string \<Rightarrow> bool" where
  "isascii s = list_all (\<lambda>c. (of_char c :: nat) < 128) s"

definition splitnetloc :: "string \<Rightarrow> string \<times> string" where
  "splitnetloc url =
     (let rest = drop 2 url
      in (takeWhile (\<lambda>c. c \<notin> set ''/?#'') rest, dropWhile (\<lambda>c. c \<notin> set ''/?#'') rest))"

definition urlsplit :: "(string \<Rightarrow> bool) \<Rightarrow> string \<Rightarrow> error + ParseResult" where
  "urlsplit chk url0 =
     (let url1 = filter (\<lambda>c. \<not> unsafe_url_byte c) (dropWhile c0_control_or_space url0);
          pre = before_first CHR '':'' url1;
          has_scheme = (CHR '':'' \<in> set url1 \<and> pre \<noteq> [] \<and> hd url1 \<in> set ascii_letters
                        \<and> list_all (\<lambda>c. c \<in> set scheme_chars) pre);
          sch = (if has_scheme then map lower_char pre else []);
          url2 = (if has_scheme then after_first CHR '':'' url1 else url1);
          has_netloc = (take 2 url2 = ''//'');
          nl = (if has_netloc then fst (splitnetloc url2) else []);
          url3 = (if has_netloc then snd (splitnetloc url2) else url2);
          has_frag = (CHR ''#'' \<in> set url3);
          url4 = (if has_frag then before_first CHR ''#'' url3 else url3);
          frag = (if has_frag then after_first CHR ''#'' url3 else []);
          has_query = (CHR ''?'' \<in> set url4);
          url5 = (if has_query then before_first CHR ''?'' url4 else url4);
          qry = (if has_query then after_first CHR ''?'' url4 else [])
      in if has_netloc \<and> ((CHR ''['' \<in> set nl \<and> CHR '']'' \<notin> set nl)
                          \<or> (CHR '']'' \<in> set nl \<and> CHR ''['' \<notin> set nl))
         then Inl ValueError
         else if has_netloc \<and> CHR ''['' \<in> set nl \<and> CHR '']'' \<in> set nl \<and> \<not> chk nl
         then Inl ValueError
         else if nl \<noteq> [] \<and> \<not> isascii nl \<and> \<not> chk nl
         then Inl ValueError
         else Inr \<lparr>scheme = sch, netloc = nl, path = url5, params = [],
                    query = qry, fragment = frag\<rparr>)"

definition splitparams :: "string \<Rightarrow> string \<times> string" where
  "splitparams url =
     (if CHR ''/'' \<in> set url
      then (let seg = rev (takeWhile (\<lambda>c. c \<noteq> CHR ''/'') (rev url));
                front = take (length url - length seg) url
            in if CHR '';'' \<notin> set seg then (url, [])
               else (front @ before_first CHR '';'' seg, after_first CHR '';'' seg))
      else if CHR '';'' \<in> set url
           then (before_first CHR '';'' url, after_first CHR '';'' url)
           else (butlast url, url))"

definition urlparse :: "(string \<Rightarrow> bool) \<Rightarrow> string \<Rightarrow> error + ParseResult" where
  "urlparse chk url =
     and_then (urlsplit chk url) (\<lambda>sp.
       if scheme sp \<in> set uses_params \<and> CHR '';'' \<in> set (path sp)
       then Inr (sp\<lparr>path := fst (splitparams (path sp)), params := snd (splitparams (path sp))\<rparr>)
       else Inr sp)"


section \<open>URL helpers of \<^verbatim>\<open>Remote\<close>\<close>

text \<open>\<^verbatim>\<open>re.search("^http.*", uri)\<close> finds a match exactly when \<open>uri\<close> starts with \<^verbatim>\<open>http\<close>:
  \<^verbatim>\<open>^\<close> anchors at the start of the string and \<^verbatim>\<open>.*\<close> also matches nothing.\<close>

definition validate_url :: "(string \<Rightarrow> bool) \<Rightarrow> string \<Rightarrow> error + string" where
  "validate_url chk uri0 =
     (let uri1 = (if take 4 uri0 \<noteq> ''http'' then ''http://'' @ uri0 else uri0)
      in and_then (urlparse chk uri1) (\<lambda>parsed_url.
           let uri2 = (if scheme parsed_url = [] then ''http://'' @ uri1 else uri1)
           in if path parsed_url = ''/'' then Inr (uri2 @ ''api/'')
              else if path parsed_url = [] then Inr (uri2 @ ''/api/'')
              else if last (path parsed_url) \<noteq> CHR ''/'' then Inr (uri2 @ ''/'')
              else Inr uri2))"

definition derive_configuration_url :: "(string \<Rightarrow> bool) \<Rightarrow> string \<Rightarrow> error + string" where
  "derive_configuration_url chk endpoint_url =
     and_then (urlparse chk endpoint_url) (\<lambda>parsed_url.
       Inr (scheme parsed_url @ ''://'' @ netloc parsed_url @ ''/configurator/''))"


section \<open>The HTTP client library\<close>

text \<open>
  A request as \<^verbatim>\<open>aiohttp\<close> sends it: the method, the address \<^verbatim>\<open>urljoin(endpoint, path)\<close> (kept
  as the pair of its two arguments), the credential the session was built with and the
  \<^verbatim>\<open>json=\<close> body if one is passed. A response is its status and its body as
  \<^verbatim>\<open>response.json()\<close> decodes it (\<open>None\<close> when the body is not JSON). The device answers one
  operation's requests through a function \<open>srv\<close>; no answer is a transport failure.
  \<^verbatim>\<open>response.ok\<close> is \<^verbatim>\<open>400 > status\<close>.
\<close>

datatype http_method = HEAD | GET | POST | PUT | DELETE

datatype credential = Bearer string | BasicAuth string string

record request =
  meth :: http_method
  target :: "string \<times> string"
  cred :: credential
  payload :: "pyval option"

record response =
  status :: nat
  content :: "pyval option"

type_synonym server = "request \<Rightarrow> response option"

definition ok :: "response \<Rightarrow> bool" where
  "ok resp = (status resp < 400)"

definition json :: "response \<Rightarrow> error + pyval" where
  "json resp = (case content resp of None \<Rightarrow> Inl JSONDecodeError | Some v \<Rightarrow> Inr v)"


section \<open>\<^verbatim>\<open>Remote\<close>: the session object\<close>

definition SYSTEM_COMMANDS :: "string list" where
  "SYSTEM_COMMANDS =
     [''STANDBY'', ''REBOOT'', ''POWER_OFF'', ''RESTART'', ''RESTART_UI'', ''RESTART_CORE'']"

definition AUTH_APIKEY_NAME :: string where
  "AUTH_APIKEY_NAME = ''pyUnfoldedCircle''"

definition AUTH_USERNAME :: string where
  "AUTH_USERNAME = ''web-configurator''"

text \<open>
  The entries that \<^verbatim>\<open>get_docks\<close> and \<^verbatim>\<open>get_remote_codesets\<close> append are dicts with exactly
  the two keys \<^verbatim>\<open>name\<close> and \<^verbatim>\<open>device_id\<close>, each holding whatever the device sent.
\<close>

record descriptor =
  name :: pyval
  device_id :: pyval

text \<open>
  The fields of \<^verbatim>\<open>Remote\<close> that the credential, key, command and IR operations read or
  write. The PIN comes from the caller only (a string or \<^verbatim>\<open>None\<close>); \<open>apikey\<close> is also
  overwritten with a decoded response value, so it is a \<open>pyval\<close>. The telemetry fields
  (battery, update and load figures) are written by getters that are not modelled.
\<close>

record remote =
  endpoint :: string
  configuration_url :: string
  apikey :: pyval
  pin :: "string option"
  docks :: "descriptor list"
  ir_codesets :: "descriptor list"

definition Remote_init ::
  "(string \<Rightarrow> bool) \<Rightarrow> string \<Rightarrow> string option \<Rightarrow> pyval \<Rightarrow> error + remote" where
  "Remote_init chk api_url pin0 apikey0 =
     and_then (validate_url chk api_url) (\<lambda>ep.
     and_then (derive_configuration_url chk ep) (\<lambda>cfg.
       Inr \<lparr>endpoint = ep, configuration_url = cfg, apikey = apikey0, pin = pin0,
             docks = [], ir_codesets = []\<rparr>))"

definition url :: "remote \<Rightarrow> string \<Rightarrow> string \<times> string" where
  "url r p = (endpoint r, p)"

text \<open>
  \<^verbatim>\<open>client\<close> returns a session with a bearer header when \<open>apikey\<close> is truthy (building the
  header raises \<^verbatim>\<open>TypeError\<close> unless it is a string), else a session with basic
  authentication when \<open>pin\<close> is truthy, else falls off its end and returns \<^verbatim>\<open>None\<close>.
\<close>

definition client :: "remote \<Rightarrow> error + credential option" where
  "client r =
     (if truthy (apikey r)
      then (case apikey r of PStr k \<Rightarrow> Inr (Some (Bearer k)) | _ \<Rightarrow> Inl TypeError)
      else (case pin r of
              None \<Rightarrow> Inr None
            | Some p \<Rightarrow> if p \<noteq> [] then Inr (Some (BasicAuth AUTH_USERNAME p)) else Inr None))"

text \<open>
  Every operation opens with
  \<^verbatim>\<open>async with self.client() as session, session.<method>(self.url(<path>), ...) as response\<close>.
  \<open>send\<close> is that statement: the client is built and entered first, then the path
  expression is evaluated, then the request goes out. It returns the requests sent and
  the response or the exception.
\<close>

definition send ::
  "server \<Rightarrow> remote \<Rightarrow> http_method \<Rightarrow> error + string \<Rightarrow> pyval option
     \<Rightarrow> request list \<times> (error + response)" where
  "send srv r m p body =
     (case client r of
        Inl e \<Rightarrow> ([], Inl e)
      | Inr None \<Rightarrow> ([], Inl NotAContextManager)
      | Inr (Some c) \<Rightarrow>
          (case p of
             Inl e \<Rightarrow> ([], Inl e)
           | Inr p' \<Rightarrow>
               (let rq = \<lparr>meth = m, target = url r p', cred = c, payload = body\<rparr>
                in case srv rq of
                     None \<Rightarrow> ([rq], Inl ClientError)
                   | Some resp \<Rightarrow> ([rq], Inr resp))))"

definition raise_on_error :: "response \<Rightarrow> error + response" where
  "raise_on_error resp =
     (if \<not> ok resp
      then and_then (json resp) (\<lambda>c.
           and_then (subscript c ''code'') (\<lambda>code.
           and_then (subscript c ''message'') (\<lambda>msg.
             Inl (HTTPError (status resp) code msg))))
      else Inr resp)"

definition can_connect :: "server \<Rightarrow> remote \<Rightarrow> request list \<times> (error + bool)" where
  "can_connect srv r =
     (let (sent, res) = send srv r HEAD (Inr ''activities'') None
      in (sent, and_then res (\<lambda>resp. Inr (status resp = 200))))"

subsection \<open>API keys\<close>

definition get_api_keys :: "server \<Rightarrow> remote \<Rightarrow> request list \<times> (error + pyval)" where
  "get_api_keys srv r =
     (let (sent, res) = send srv r GET (Inr ''auth/api_keys'') None
      in (sent, and_then res (\<lambda>resp. and_then (raise_on_error resp) json)))"

text \<open>On success the session with the new key stored, and the key returned.\<close>

definition create_api_key ::
  "server \<Rightarrow> remote \<Rightarrow> request list \<times> (error + remote \<times> pyval)" where
  "create_api_key srv r =
     (let body = PDict [(''name'', PStr AUTH_APIKEY_NAME), (''scopes'', PList [PStr ''admin''])];
          (sent, res) = send srv r POST (Inr ''auth/api_keys'') (Some body)
      in (sent, and_then res (\<lambda>resp.
                and_then (raise_on_error resp) (\<lambda>resp.
                and_then (json resp) (\<lambda>api_info.
                and_then (subscript api_info ''api_key'') (\<lambda>k.
                  Inr (r\<lparr>apikey := k\<rparr>, k)))))))"

text \<open>The \<^verbatim>\<open>for ... else\<close> loop of \<^verbatim>\<open>revoke_api_key\<close>: the \<^verbatim>\<open>key_id\<close> of the first key whose
  \<^verbatim>\<open>name\<close> equals \<open>key_name\<close>, or \<open>None\<close> when the loop runs to its \<^verbatim>\<open>else\<close>.\<close>

fun find_api_key_id :: "pyval list \<Rightarrow> string \<Rightarrow> error + pyval option" where
  "find_api_key_id [] key_name = Inr None"
| "find_api_key_id (key # keys) key_name =
     and_then (subscript key ''name'') (\<lambda>n.
       if n = PStr key_name
       then and_then (subscript key ''key_id'') (\<lambda>i. Inr (Some i))
       else find_api_key_id keys key_name)"

definition revoke_api_key ::
  "server \<Rightarrow> remote \<Rightarrow> string \<Rightarrow> request list \<times> (error + unit)" where
  "revoke_api_key srv r key_name =
     (let (sent, keys) = get_api_keys srv r
      in case and_then keys (\<lambda>ks. and_then (py_iter ks) (\<lambda>items.
                find_api_key_id items key_name)) of
           Inl e \<Rightarrow> (sent, Inl e)
         | Inr None \<Rightarrow>
             (sent, Inl (ApiKeyNotFound key_name (''API Key '' @ [CHR 0x27] @ key_name
                                                    @ [CHR 0x27] @ '' not found.'')))
         | Inr (Some api_key_id) \<Rightarrow>
             (let (sent2, res) = send srv r DELETE (str_add ''auth/api_keys/'' api_key_id) None
              in (sent @ sent2, and_then res (\<lambda>resp.
                                  and_then (raise_on_error resp) (\<lambda>resp. Inr ())))))"

subsection \<open>Activity state and system commands\<close>

text \<open>The loop of \<^verbatim>\<open>get_activity_state\<close>; falling off the end of the function returns
  \<^verbatim>\<open>None\<close>.\<close>

fun find_activity_state :: "pyval list \<Rightarrow> string \<Rightarrow> error + pyval" where
  "find_activity_state [] entity_id = Inr PNone"
| "find_activity_state (current_activity # rest) entity_id =
     and_then (subscript current_activity ''entity_id'') (\<lambda>i.
       if PStr entity_id = i
       then and_then (subscript current_activity ''attributes'') (\<lambda>a. subscript a ''state'')
       else find_activity_state rest entity_id)"

definition get_activity_state ::
  "server \<Rightarrow> remote \<Rightarrow> string \<Rightarrow> request list \<times> (error + pyval)" where
  "get_activity_state srv r entity_id =
     (let (sent, res) = send srv r GET (Inr ''activities'') None
      in (sent, and_then res (\<lambda>resp.
                and_then (raise_on_error resp) (\<lambda>resp.
                and_then (json resp) (\<lambda>current_activities.
                and_then (py_iter current_activities) (\<lambda>items.
                  find_activity_state items entity_id))))))"

definition post_system_command ::
  "server \<Rightarrow> remote \<Rightarrow> string \<Rightarrow> request list \<times> (error + pyval)" where
  "post_system_command srv r cmd =
     (if cmd \<in> set SYSTEM_COMMANDS
      then (let (sent, res) = send srv r POST (Inr (''system?cmd='' @ cmd)) None
            in (sent, and_then res (\<lambda>resp. and_then (raise_on_error resp) json)))
      else ([], Inl (SystemCommandNotFound ''Invalid System Command Supplied'')))"

subsection \<open>IR commands\<close>

text \<open>
  The keyword arguments that \<^verbatim>\<open>send_remote_command\<close> looks at; \<open>None\<close> is a keyword that
  was not passed. \<open>kw_dock\<close> is a dock name. The value bound to \<^verbatim>\<open>emitter\<close> is either a whole
  dock entry (the generator over \<^verbatim>\<open>self._docks\<close> yields the entries themselves), or a
  plain value: \<^verbatim>\<open>None\<close> from the generator's default, or the first dock's \<^verbatim>\<open>device_id\<close>.
\<close>

record ir_kwargs =
  kw_code :: "pyval option"
  kw_format :: "pyval option"
  kw_dock :: "string option"
  kw_port :: "pyval option"

datatype emitter = EmitterEntry descriptor | EmitterValue pyval

definition raw_body :: "ir_kwargs \<Rightarrow> (string \<times> pyval) list option" where
  "raw_body kw =
     (case (kw_code kw, kw_format kw) of
        (Some c, Some f) \<Rightarrow> Some [(''code'', c), (''format'', f)]
      | _ \<Rightarrow> None)"

text \<open>The second \<^verbatim>\<open>if\<close> of the function is not an \<^verbatim>\<open>elif\<close>: it runs whatever the first one
  did, and its \<^verbatim>\<open>else\<close> raises. A device without a codeset makes the generator return its
  default, the class \<^verbatim>\<open>dict\<close>, whose unbound \<^verbatim>\<open>get\<close> rejects a string receiver.\<close>

definition command_body ::
  "remote \<Rightarrow> string \<Rightarrow> string \<Rightarrow> ir_kwargs \<Rightarrow> error + (string \<times> pyval) list" where
  "command_body r device command kw =
     (let body = raw_body kw
      in if device \<noteq> [] \<and> command \<noteq> []
         then (case find (\<lambda>c. name c = PStr device) (ir_codesets r) of
                 None \<Rightarrow> Inl TypeError
               | Some ir_code \<Rightarrow>
                   Inr [(''codeset_id'', device_id ir_code), (''cmd_id'', PStr command)])
         else Inl (InvalidIRFormat ''Supply (code and format) or (device and command)''))"

definition resolve_emitter :: "remote \<Rightarrow> ir_kwargs \<Rightarrow> error + emitter" where
  "resolve_emitter r kw =
     and_then
       (case kw_dock kw of
          Some dock_name \<Rightarrow>
            (case find (\<lambda>d. name d = PStr dock_name) (docks r) of
               Some d \<Rightarrow> Inr (EmitterEntry d)
             | None \<Rightarrow> Inr (EmitterValue PNone))
        | None \<Rightarrow>
            (case docks r of
               [] \<Rightarrow> Inl IndexError
             | d # _ \<Rightarrow> Inr (EmitterValue (device_id d))))
       (\<lambda>em. if em = EmitterValue PNone
             then Inl (NoEmitterFound ''No emitter could be found with the supplied criteria'')
             else Inr em)"

definition emitter_path :: "emitter \<Rightarrow> error + string" where
  "emitter_path em =
     (case em of
        EmitterEntry d \<Rightarrow> Inl TypeError
      | EmitterValue v \<Rightarrow> and_then (str_add ''ir/emitters/'' v) (\<lambda>s. Inr (s @ ''/send'')))"

definition send_remote_command ::
  "server \<Rightarrow> remote \<Rightarrow> string \<Rightarrow> string \<Rightarrow> int \<Rightarrow> ir_kwargs
     \<Rightarrow> request list \<times> (error + bool)" where
  "send_remote_command srv r device command repeat kw =
     (case command_body r device command kw of
        Inl e \<Rightarrow> ([], Inl e)
      | Inr body \<Rightarrow>
          (let body_repeat = (if repeat > 0 then [(''repeat'', PInt repeat)] else []);
               body_port = (case kw_port kw of Some p \<Rightarrow> [(''port_id'', p)] | None \<Rightarrow> [])
           in case resolve_emitter r kw of
                Inl e \<Rightarrow> ([], Inl e)
              | Inr em \<Rightarrow>
                  (let body_merged = PDict (body @ body_repeat @ body_port);
                       (sent, res) = send srv r PUT (emitter_path em) (Some body_merged)
                   in (sent, and_then res (\<lambda>resp.
                             and_then (raise_on_error resp) (\<lambda>resp.
                             and_then (json resp) (\<lambda>v. Inr (v = PInt 200))))))))"


section \<open>\<^verbatim>\<open>Activity\<close>\<close>

text \<open>An activity's own fields; its \<^verbatim>\<open>_remote\<close> back-reference is the session passed to each
  operation. Entity ids are strings.\<close>

record activity =
  act_name :: pyval
  act_id :: string
  act_state :: pyval

definition turn_on :: "server \<Rightarrow> remote \<Rightarrow> activity \<Rightarrow> request list \<times> (error + activity)" where
  "turn_on srv r a =
     (let body = PDict [(''entity_id'', PStr (act_id a)), (''cmd_id'', PStr ''activity.on'')];
          (sent, res) = send srv r PUT (Inr (''entities/'' @ act_id a @ ''/command'')) (Some body)
      in (sent, and_then res (\<lambda>resp.
                and_then (raise_on_error resp) (\<lambda>resp.
                  Inr (a\<lparr>act_state := PStr ''ON''\<rparr>)))))"

definition turn_off :: "server \<Rightarrow> remote \<Rightarrow> activity \<Rightarrow> request list \<times> (error + activity)" where
  "turn_off srv r a =
     (let body = PDict [(''entity_id'', PStr (act_id a)), (''cmd_id'', PStr ''activity.off'')];
          (sent, res) = send srv r PUT (Inr (''entities/'' @ act_id a @ ''/command'')) (Some body)
      in (sent, and_then res (\<lambda>resp.
                and_then (raise_on_error resp) (\<lambda>resp.
                  Inr (a\<lparr>act_state := PStr ''OFF''\<rparr>)))))"

definition is_on :: "activity \<Rightarrow> bool" where
  "is_on a = (act_state a = PStr ''ON'')"

definition update :: "server \<Rightarrow> remote \<Rightarrow> activity \<Rightarrow> request list \<times> (error + activity)" where
  "update srv r a =
     (let (sent, res) = get_activity_state srv r (act_id a)
      in (sent, and_then res (\<lambda>s. Inr (a\<lparr>act_state := s\<rparr>))))"


section \<open>Example sessions and devices\<close>

text \<open>\<open>bare_session\<close> is the session that \<^verbatim>\<open>Remote("host")\<close> builds: no PIN, no API key.
  \<open>always resp\<close> is a device that answers every request with \<open>resp\<close>.\<close>

definition bare_session :: remote where
  "bare_session =
     \<lparr>endpoint = ''http://host/api/'', configuration_url = ''http://host/configurator/'',
      apikey = PNone, pin = None, docks = [], ir_codesets = []\<rparr>"

definition always :: "response \<Rightarrow> server" where
  "always resp = (\<lambda>rq. Some resp)"

text \<open>An activity as \<^verbatim>\<open>get_activities\<close> builds it, and the entry of the activities list it
  is built from.\<close>

definition movie_night :: activity where
  "movie_night = \<lparr>act_name = PStr ''Movie night'', act_id = ''uc.main.movie'',
                   act_state = PStr ''OFF''\<rparr>"

definition activity_entry :: "string \<Rightarrow> string \<Rightarrow> pyval" where
  "activity_entry i st =
     PDict [(''entity_id'', PStr i), (''attributes'', PDict [(''state'', PStr st)])]"


section \<open>Properties of the building blocks\<close>

lemma and_then_neq:
  "x \<noteq> Inl e \<Longrightarrow> (\<And>y. f y \<noteq> Inl e) \<Longrightarrow> and_then x f \<noteq> Inl e"
  by (cases x) auto

lemma subscript_not_auth: "subscript v k \<noteq> Inl (AuthenticationError msg)"
  by (cases v) (auto split: option.splits)

lemma json_not_auth: "json resp \<noteq> Inl (AuthenticationError msg)"
  by (simp add: json_def split: option.splits)

lemma raise_on_error_not_auth: "raise_on_error resp \<noteq> Inl (AuthenticationError msg)"
  unfolding raise_on_error_def
  by (simp add: and_then_neq subscript_not_auth json_not_auth)

lemma raise_on_error_ok: "status resp < 400 \<Longrightarrow> raise_on_error resp = Inr resp"
  by (simp add: raise_on_error_def ok_def)

lemma client_not_auth: "client r \<noteq> Inl (AuthenticationError msg)"
  by (auto simp: client_def split: pyval.splits option.splits)

lemma client_None_iff:
  "client r = Inr None \<longleftrightarrow> \<not> truthy (apikey r) \<and> (pin r = None \<or> pin r = Some [])"
  by (auto simp: client_def split: pyval.splits option.splits)

lemma client_bare_session: "client bare_session = Inr None"
  by (simp add: client_def bare_session_def)

lemma client_pin_session:
  "client (bare_session\<lparr>pin := Some ''1234''\<rparr>)
     = Inr (Some (BasicAuth ''web-configurator'' ''1234''))"
  by (simp add: client_def bare_session_def AUTH_USERNAME_def)

lemma url_bare_session: "url (bare_session\<lparr>pin := x\<rparr>) p = (''http://host/api/'', p)"
  by (simp add: url_def bare_session_def)

lemma send_without_client:
  "client r = Inr None \<Longrightarrow> send srv r m p body = ([], Inl NotAContextManager)"
  by (simp add: send_def)

lemma send_with_client:
  "client r = Inr (Some c) \<Longrightarrow>
   srv \<lparr>meth = m, target = url r p, cred = c, payload = body\<rparr> = Some resp \<Longrightarrow>
   send srv r m (Inr p) body
     = ([\<lparr>meth = m, target = url r p, cred = c, payload = body\<rparr>], Inr resp)"
  by (simp add: send_def)

lemma send_logs_request:
  "client r = Inr (Some c) \<Longrightarrow>
   fst (send srv r m (Inr p) body) = [\<lparr>meth = m, target = url r p, cred = c, payload = body\<rparr>]"
  by (simp add: send_def Let_def split: option.splits)

lemma send_not_auth: "snd (send srv r m (Inr p) body) \<noteq> Inl (AuthenticationError msg)"
  using client_not_auth [of r msg]
  by (auto simp: send_def Let_def split: sum.splits option.splits)

lemma create_api_key_not_auth: "snd (create_api_key srv r) \<noteq> Inl (AuthenticationError msg)"
proof -
  obtain sent res where s: "send srv r POST (Inr ''auth/api_keys'')
      (Some (PDict [(''name'', PStr AUTH_APIKEY_NAME), (''scopes'', PList [PStr ''admin''])]))
      = (sent, res)"
    by (cases "send srv r POST (Inr ''auth/api_keys'')
      (Some (PDict [(''name'', PStr AUTH_APIKEY_NAME), (''scopes'', PList [PStr ''admin''])]))")
  with send_not_auth [of srv r POST "''auth/api_keys''" _ msg]
  have "res \<noteq> Inl (AuthenticationError msg)" by (metis snd_conv)
  then have "and_then res (\<lambda>resp.
                and_then (raise_on_error resp) (\<lambda>resp.
                and_then (json resp) (\<lambda>api_info.
                and_then (subscript api_info ''api_key'') (\<lambda>k.
                  Inr (r\<lparr>apikey := k\<rparr>, k))))) \<noteq> Inl (AuthenticationError msg)"
    by (intro and_then_neq raise_on_error_not_auth json_not_auth subscript_not_auth) simp_all
  then show ?thesis
    using s by (simp add: create_api_key_def)
qed

lemma and_then_Inr_iff:
  "and_then x f = Inr z \<longleftrightarrow> (\<exists>y. x = Inr y \<and> f y = Inr z)"
  by (cases x) auto

lemma create_api_key_stores_key:
  assumes "create_api_key srv r = (sent, Inr (r', k))"
  shows "r' = r\<lparr>apikey := k\<rparr>"
proof -
  obtain sent0 res where s: "send srv r POST (Inr ''auth/api_keys'')
      (Some (PDict [(''name'', PStr AUTH_APIKEY_NAME), (''scopes'', PList [PStr ''admin''])]))
      = (sent0, res)"
    by (cases "send srv r POST (Inr ''auth/api_keys'')
      (Some (PDict [(''name'', PStr AUTH_APIKEY_NAME), (''scopes'', PList [PStr ''admin''])]))")
  from assms s have "and_then res (\<lambda>resp.
                and_then (raise_on_error resp) (\<lambda>resp.
                and_then (json resp) (\<lambda>api_info.
                and_then (subscript api_info ''api_key'') (\<lambda>k.
                  Inr (r\<lparr>apikey := k\<rparr>, k))))) = Inr (r', k)"
    by (simp add: create_api_key_def)
  then show ?thesis
    by (auto simp: and_then_Inr_iff)
qed

subsection \<open>What \<^verbatim>\<open>urlparse\<close> rejects\<close>

lemma set_after_first: "set (after_first c s) \<subseteq> set s"
proof
  fix x assume "x \<in> set (after_first c s)"
  then have "x \<in> set (dropWhile (\<lambda>y. y \<noteq> c) s)"
    unfolding after_first_def by (cases "dropWhile (\<lambda>y. y \<noteq> c) s") auto
  then show "x \<in> set s" by (rule set_dropWhileD)
qed

lemma set_netloc: "set (fst (splitnetloc w)) \<subseteq> set w"
  unfolding splitnetloc_def Let_def by (auto dest!: set_takeWhileD in_set_dropD)

lemma isascii_subset: "isascii w \<Longrightarrow> set v \<subseteq> set w \<Longrightarrow> isascii v"
  by (auto simp: isascii_def list_all_iff)

lemma urlsplit_raises:
  assumes "urlsplit chk w = Inl e"
  shows "e = ValueError \<and> (CHR ''['' \<in> set w \<or> CHR '']'' \<in> set w \<or> \<not> isascii w)"
proof -
  define url1 where "url1 = filter (\<lambda>c. \<not> unsafe_url_byte c) (dropWhile c0_control_or_space w)"
  define url2 where "url2 =
    (if (CHR '':'' \<in> set url1 \<and> before_first CHR '':'' url1 \<noteq> [] \<and> hd url1 \<in> set ascii_letters
         \<and> list_all (\<lambda>c. c \<in> set scheme_chars) (before_first CHR '':'' url1))
     then after_first CHR '':'' url1 else url1)"
  define nl where "nl = fst (splitnetloc url2)"
  have s1: "set url1 \<subseteq> set w" unfolding url1_def by (auto dest: set_dropWhileD)
  have s2: "set url2 \<subseteq> set url1" unfolding url2_def using set_after_first by auto
  have s3: "set nl \<subseteq> set url2" unfolding nl_def by (rule set_netloc)
  have "e = ValueError \<and> (CHR ''['' \<in> set nl \<or> CHR '']'' \<in> set nl \<or> \<not> isascii nl)"
    using assms
    apply (simp only: urlsplit_def Let_def)
    apply (simp only: flip: url1_def)
    apply (simp only: flip: url2_def)
    apply (simp only: flip: nl_def)
    apply (auto split: if_splits)
    done
  moreover have "set nl \<subseteq> set w" using s1 s2 s3 by blast
  ultimately show ?thesis using isascii_subset [of w nl] by blast
qed

lemma urlparse_raises:
  assumes "urlparse chk w = Inl e"
  shows "e = ValueError \<and> (CHR ''['' \<in> set w \<or> CHR '']'' \<in> set w \<or> \<not> isascii w)"
proof (cases "urlsplit chk w")
  case (Inl e')
  with assms have "e' = e" by (simp add: urlparse_def)
  with Inl urlsplit_raises show ?thesis by blast
next
  case (Inr sp)
  with assms show ?thesis by (simp add: urlparse_def split: if_splits)
qed

text \<open>\<^verbatim>\<open>validate_url\<close> raises exactly when \<^verbatim>\<open>urlparse\<close> raises on the URL it hands to it, and
  raises the same exception: its own steps after the parse cannot fail (the path is
  indexed only when it is not empty).\<close>

lemma validate_url_raises_iff:
  "validate_url chk uri = Inl e \<longleftrightarrow>
   urlparse chk (if take 4 uri \<noteq> ''http'' then ''http://'' @ uri else uri) = Inl e"
  by (cases "urlparse chk (if take 4 uri \<noteq> ''http'' then ''http://'' @ uri else uri)")
     (simp_all add: validate_url_def Let_def)

lemma isascii_http_prefix: "isascii uri \<Longrightarrow> isascii (''http://'' @ uri)"
  by (simp add: isascii_def)

lemma validate_url_returns:
  assumes "isascii uri" "CHR ''['' \<notin> set uri" "CHR '']'' \<notin> set uri"
  shows "\<exists>u. validate_url chk uri = Inr u"
proof (cases "validate_url chk uri")
  case (Inl e)
  define uri1 where "uri1 = (if take 4 uri \<noteq> ''http'' then ''http://'' @ uri else uri)"
  have "isascii uri1"
    using assms(1) isascii_http_prefix [of uri] by (simp only: uri1_def split: if_splits) simp
  moreover have "CHR ''['' \<notin> set uri1" "CHR '']'' \<notin> set uri1"
    using assms by (auto simp: uri1_def)
  moreover have "urlparse chk uri1 = Inl e"
    using Inl by (simp only: validate_url_raises_iff uri1_def)
  ultimately show ?thesis using urlparse_raises by blast
next
  case (Inr u)
  then show ?thesis by blast
qed

text \<open>The authority \<^verbatim>\<open>host\<close> followed by U+2100 (UTF-8 \<^verbatim>\<open>E2 84 80\<close>, NFKC \<^verbatim>\<open>a/c\<close>) is one that
  \<^verbatim>\<open>_checknetloc\<close> rejects: with a \<open>chk\<close> that rejects it, \<^verbatim>\<open>validate_url\<close> raises.\<close>

lemma validate_url_non_ascii_authority:
  "validate_url (\<lambda>nl. nl \<noteq> ''host'' @ [CHR 0xE2, CHR 0x84, CHR 0x80])
     (''host'' @ [CHR 0xE2, CHR 0x84, CHR 0x80]) = Inl ValueError"
  by code_simp

lemma Remote_init_host: "Remote_init (\<lambda>nl. True) ''host'' None PNone = Inr bare_session"
proof -
  have v: "validate_url (\<lambda>nl. True) ''host'' = Inr ''http://host/api/''"
    by code_simp
  have d: "derive_configuration_url (\<lambda>nl. True) ''http://host/api/''
             = Inr ''http://host/configurator/''"
    by code_simp
  show ?thesis by (simp add: Remote_init_def v d bare_session_def)
qed

subsection \<open>The loop of \<^verbatim>\<open>revoke_api_key\<close>\<close>

lemma find_api_key_id_absent:
  "\<forall>k \<in> set keys. \<exists>n. subscript k ''name'' = Inr n \<and> n \<noteq> PStr key_name \<Longrightarrow>
   find_api_key_id keys key_name = Inr None"
  by (induction keys) auto

lemma find_api_key_id_first:
  "\<forall>k \<in> set pre. \<exists>n. subscript k ''name'' = Inr n \<and> n \<noteq> PStr key_name \<Longrightarrow>
   subscript key ''name'' = Inr (PStr key_name) \<Longrightarrow>
   subscript key ''key_id'' = Inr i \<Longrightarrow>
   find_api_key_id (pre @ key # post) key_name = Inr (Some i)"
  by (induction pre) auto


subsection \<open>The loop of \<^verbatim>\<open>get_activity_state\<close>\<close>

lemma find_activity_state_absent:
  "\<forall>ca \<in> set acts. \<exists>i. subscript ca ''entity_id'' = Inr i \<and> i \<noteq> PStr entity_id \<Longrightarrow>
   find_activity_state acts entity_id = Inr PNone"
  by (induction acts) auto

lemma find_activity_state_first:
  "\<forall>ca \<in> set pre. \<exists>i. subscript ca ''entity_id'' = Inr i \<and> i \<noteq> PStr entity_id \<Longrightarrow>
   subscript ca ''entity_id'' = Inr (PStr entity_id) \<Longrightarrow>
   subscript ca ''attributes'' = Inr at \<Longrightarrow>
   subscript at ''state'' = Inr s \<Longrightarrow>
   find_activity_state (pre @ ca # post) entity_id = Inr s"
  by (induction pre) auto

lemma get_activity_state_fetched:
  "client r = Inr (Some c) \<Longrightarrow>
   srv \<lparr>meth = GET, target = url r ''activities'', cred = c, payload = None\<rparr> = Some resp \<Longrightarrow>
   status resp < 400 \<Longrightarrow>
   content resp = Some (PList acts) \<Longrightarrow>
   get_activity_state srv r entity_id
     = ([\<lparr>meth = GET, target = url r ''activities'', cred = c, payload = None\<rparr>],
        find_activity_state acts entity_id)"
  by (simp add: get_activity_state_def send_with_client raise_on_error_ok json_def)


subsection \<open>Argument and emitter checks of \<^verbatim>\<open>send_remote_command\<close>\<close>

text \<open>
  The argument check raises \<^verbatim>\<open>InvalidIRFormat\<close> exactly when the device or the command is
  empty, whatever keywords are passed. A \<^verbatim>\<open>dock\<close> name that matches no known dock raises
  \<^verbatim>\<open>NoEmitterFound\<close>; one that matches binds the whole dock entry, which cannot be
  concatenated into the address; without a \<^verbatim>\<open>dock\<close> keyword the first dock's \<^verbatim>\<open>device_id\<close>
  is the emitter, and an empty dock list raises \<^verbatim>\<open>IndexError\<close>.
\<close>

lemma command_body_invalid_iff:
  "(\<exists>msg. command_body r device command kw = Inl (InvalidIRFormat msg))
     \<longleftrightarrow> device = [] \<or> command = []"
  by (auto simp: command_body_def split: option.splits)

lemma send_remote_command_empty_device_or_command:
  "device = [] \<or> command = [] \<Longrightarrow>
   send_remote_command srv r device command repeat kw
     = ([], Inl (InvalidIRFormat ''Supply (code and format) or (device and command)''))"
  by (auto simp: send_remote_command_def command_body_def)

lemma resolve_emitter_unknown_dock:
  "kw_dock kw = Some dock_name \<Longrightarrow>
   find (\<lambda>d. name d = PStr dock_name) (docks r) = None \<Longrightarrow>
   resolve_emitter r kw
     = Inl (NoEmitterFound ''No emitter could be found with the supplied criteria'')"
  by (simp add: resolve_emitter_def)

lemma resolve_emitter_known_dock:
  "kw_dock kw = Some dock_name \<Longrightarrow>
   find (\<lambda>d. name d = PStr dock_name) (docks r) = Some d \<Longrightarrow>
   resolve_emitter r kw = Inr (EmitterEntry d) \<and> emitter_path (EmitterEntry d) = Inl TypeError"
  by (simp add: resolve_emitter_def emitter_path_def)

lemma resolve_emitter_first_dock:
  "kw_dock kw = None \<Longrightarrow> docks r = d # ds \<Longrightarrow> device_id d \<noteq> PNone \<Longrightarrow>
   resolve_emitter r kw = Inr (EmitterValue (device_id d))"
  by (simp add: resolve_emitter_def)

lemma resolve_emitter_no_docks:
  "kw_dock kw = None \<Longrightarrow> docks r = [] \<Longrightarrow> resolve_emitter r kw = Inl IndexError"
  by (simp add: resolve_emitter_def)

lemma send_remote_command_unknown_dock:
  "command_body r device command kw = Inr b \<Longrightarrow>
   kw_dock kw = Some dock_name \<Longrightarrow>
   find (\<lambda>d. name d = PStr dock_name) (docks r) = None \<Longrightarrow>
   send_remote_command srv r device command repeat kw
     = ([], Inl (NoEmitterFound ''No emitter could be found with the supplied criteria''))"
  by (simp add: send_remote_command_def resolve_emitter_unknown_dock)

lemma send_remote_command_first_dock:
  "command_body r device command kw = Inr b \<Longrightarrow>
   kw_dock kw = None \<Longrightarrow> docks r = d # ds \<Longrightarrow> device_id d = PStr e \<Longrightarrow>
   client r = Inr (Some c) \<Longrightarrow>
   map (\<lambda>rq. (meth rq, target rq)) (fst (send_remote_command srv r device command repeat kw))
     = [(PUT, url r (''ir/emitters/'' @ e @ ''/send''))]"
  by (simp add: send_remote_command_def resolve_emitter_def emitter_path_def send_def Let_def
        split: option.splits)


section \<open>The claims\<close>

text \<open>
  C1. \<^verbatim>\<open>send_remote_command\<close> is meant to accept either a raw code with its format or a
  device with a command. Called with a raw code and a format only (device and command
  left at their empty defaults), it raises \<^verbatim>\<open>InvalidIRFormat\<close> and sends nothing: the
  device and command test is a second \<^verbatim>\<open>if\<close> whose \<^verbatim>\<open>else\<close> raises whatever the first
  \<^verbatim>\<open>if\<close> did.
\<close>

theorem send_remote_command_raw_code_rejected:
  "send_remote_command srv r [] [] 0
     \<lparr>kw_code = Some (PStr ''0000 006D 0022 0002''), kw_format = Some (PStr ''PRONTO''),
      kw_dock = None, kw_port = None\<rparr>
   = ([], Inl (InvalidIRFormat ''Supply (code and format) or (device and command)''))"
  by (simp add: send_remote_command_def command_body_def)

text \<open>
  C2. \<^verbatim>\<open>create_api_key\<close> makes no PIN check and never raises \<^verbatim>\<open>AuthenticationError\<close>. On
  a session whose client is \<^verbatim>\<open>None\<close> it fails with the error of entering \<^verbatim>\<open>None\<close> as a
  context manager, before any request. When the POST is answered with a status below 400
  and a JSON body holding \<^verbatim>\<open>api_key\<close>, exactly that one request was sent, the key is stored
  in \<open>apikey\<close> and the same key is returned.
\<close>

theorem create_api_key_makes_no_pin_check:
  "snd (create_api_key srv r) \<noteq> Inl (AuthenticationError msg)
   \<and> (client r = Inr None \<longrightarrow> create_api_key srv r = ([], Inl NotAContextManager))
   \<and> (client r = Inr (Some c)
        \<and> srv \<lparr>meth = POST, target = url r ''auth/api_keys'', cred = c,
                payload = Some (PDict [(''name'', PStr AUTH_APIKEY_NAME),
                                       (''scopes'', PList [PStr ''admin''])])\<rparr> = Some resp
        \<and> status resp < 400 \<and> content resp = Some api_info
        \<and> subscript api_info ''api_key'' = Inr k \<longrightarrow>
      create_api_key srv r
        = ([\<lparr>meth = POST, target = url r ''auth/api_keys'', cred = c,
              payload = Some (PDict [(''name'', PStr AUTH_APIKEY_NAME),
                                     (''scopes'', PList [PStr ''admin''])])\<rparr>],
           Inr (r\<lparr>apikey := k\<rparr>, k)))"
proof (intro conjI impI)
  show "snd (create_api_key srv r) \<noteq> Inl (AuthenticationError msg)"
    by (rule create_api_key_not_auth)
next
  assume "client r = Inr None"
  then show "create_api_key srv r = ([], Inl NotAContextManager)"
    by (simp add: create_api_key_def send_without_client)
next
  assume a: "client r = Inr (Some c)
        \<and> srv \<lparr>meth = POST, target = url r ''auth/api_keys'', cred = c,
                payload = Some (PDict [(''name'', PStr AUTH_APIKEY_NAME),
                                       (''scopes'', PList [PStr ''admin''])])\<rparr> = Some resp
        \<and> status resp < 400 \<and> content resp = Some api_info
        \<and> subscript api_info ''api_key'' = Inr k"
  then show "create_api_key srv r
        = ([\<lparr>meth = POST, target = url r ''auth/api_keys'', cred = c,
              payload = Some (PDict [(''name'', PStr AUTH_APIKEY_NAME),
                                     (''scopes'', PList [PStr ''admin''])])\<rparr>],
           Inr (r\<lparr>apikey := k\<rparr>, k))"
    by (simp add: create_api_key_def send_with_client raise_on_error_ok json_def)
qed

theorem create_api_key_makes_no_pin_check_witness:
  "create_api_key (always \<lparr>status = 200, content = Some (PDict [(''api_key'', PStr ''new-key'')])\<rparr>)
                  bare_session
     = ([], Inl NotAContextManager)
   \<and> create_api_key
       (always \<lparr>status = 200, content = Some (PDict [(''api_key'', PStr ''new-key'')])\<rparr>)
       (bare_session\<lparr>pin := Some ''1234''\<rparr>)
     = ([\<lparr>meth = POST, target = (''http://host/api/'', ''auth/api_keys''),
          cred = BasicAuth ''web-configurator'' ''1234'',
          payload = Some (PDict [(''name'', PStr AUTH_APIKEY_NAME),
                                 (''scopes'', PList [PStr ''admin''])])\<rparr>],
        Inr (bare_session\<lparr>pin := Some ''1234'', apikey := PStr ''new-key''\<rparr>, PStr ''new-key''))"
proof -
  let ?resp = "\<lparr>status = 200, content = Some (PDict [(''api_key'', PStr ''new-key'')])\<rparr>"
  have a: "create_api_key (always ?resp) bare_session = ([], Inl NotAContextManager)"
    using create_api_key_makes_no_pin_check [where r = bare_session and srv = "always ?resp"]
    by (simp add: client_bare_session)
  have b: "create_api_key (always ?resp) (bare_session\<lparr>pin := Some ''1234''\<rparr>)
     = ([\<lparr>meth = POST, target = url (bare_session\<lparr>pin := Some ''1234''\<rparr>) ''auth/api_keys'',
          cred = BasicAuth ''web-configurator'' ''1234'',
          payload = Some (PDict [(''name'', PStr AUTH_APIKEY_NAME),
                                 (''scopes'', PList [PStr ''admin''])])\<rparr>],
        Inr (bare_session\<lparr>pin := Some ''1234'', apikey := PStr ''new-key''\<rparr>, PStr ''new-key''))"
    using create_api_key_makes_no_pin_check
            [where r = "bare_session\<lparr>pin := Some ''1234''\<rparr>" and srv = "always ?resp"
               and c = "BasicAuth ''web-configurator'' ''1234''" and resp = ?resp
               and api_info = "PDict [(''api_key'', PStr ''new-key'')]" and k = "PStr ''new-key''"]
    by (simp add: client_pin_session always_def)
  from a b show ?thesis by (simp add: url_bare_session)
qed

text \<open>
  Counterexample to C2 as stated: a session that holds an API key and no PIN, against a
  device that accepts the request. \<^verbatim>\<open>create_api_key\<close> does not fail: it sends the POST
  with the bearer token and returns the new key.
\<close>

theorem create_api_key_with_token_and_no_pin:
  "pin (bare_session\<lparr>apikey := PStr ''old-key''\<rparr>) = None
   \<and> create_api_key
       (always \<lparr>status = 200, content = Some (PDict [(''api_key'', PStr ''new-key'')])\<rparr>)
       (bare_session\<lparr>apikey := PStr ''old-key''\<rparr>)
     = ([\<lparr>meth = POST, target = (''http://host/api/'', ''auth/api_keys''),
          cred = Bearer ''old-key'',
          payload = Some (PDict [(''name'', PStr ''pyUnfoldedCircle''),
                                 (''scopes'', PList [PStr ''admin''])])\<rparr>],
        Inr (bare_session\<lparr>apikey := PStr ''new-key''\<rparr>, PStr ''new-key''))"
  by (simp add: create_api_key_def send_def client_def bare_session_def always_def url_def
        raise_on_error_def ok_def json_def AUTH_APIKEY_NAME_def)

text \<open>
  C3. \<^verbatim>\<open>send_remote_command\<close> is meant to raise \<^verbatim>\<open>NoEmitterFound\<close> whenever no emitter can
  be resolved. With a device that has a codeset, no \<^verbatim>\<open>dock\<close> keyword and an empty dock
  list, it raises \<^verbatim>\<open>IndexError\<close> instead (from \<^verbatim>\<open>self._docks[0]\<close>) and sends nothing.
\<close>

theorem send_remote_command_without_docks:
  "send_remote_command srv
     (r\<lparr>docks := [], ir_codesets := [\<lparr>name = PStr ''TV'', device_id = PStr ''uc.tv''\<rparr>]\<rparr>)
     ''TV'' ''POWER'' 0 \<lparr>kw_code = None, kw_format = None, kw_dock = None, kw_port = None\<rparr>
   = ([], Inl IndexError)"
  by (simp add: send_remote_command_def command_body_def resolve_emitter_def raw_body_def)

text \<open>
  C4. \<^verbatim>\<open>validate_url\<close> fails exactly when \<^verbatim>\<open>urlparse\<close> rejects the URL it is given to parse
  (the input, with \<^verbatim>\<open>http://\<close> put in front unless it starts with \<^verbatim>\<open>http\<close>), and then with
  \<^verbatim>\<open>urlparse\<close>'s \<^verbatim>\<open>ValueError\<close>. It returns a URL for every ASCII input string without a
  square bracket, and for \<^verbatim>\<open>host\<close>, \<^verbatim>\<open>host/\<close>, \<^verbatim>\<open>host/api\<close> and \<^verbatim>\<open>http://host:8080\<close> it
  returns \<^verbatim>\<open>http://host/api/\<close>, \<^verbatim>\<open>http://host/api/\<close>, \<^verbatim>\<open>http://host/api/\<close> and
  \<^verbatim>\<open>http://host:8080/api/\<close>.
\<close>

theorem validate_url_normalises:
  "(validate_url chk uri = Inl e \<longleftrightarrow>
      e = ValueError
      \<and> urlparse chk (if take 4 uri \<noteq> ''http'' then ''http://'' @ uri else uri) = Inl ValueError)
   \<and> (isascii uri \<and> CHR ''['' \<notin> set uri \<and> CHR '']'' \<notin> set uri \<longrightarrow>
        (\<exists>u. validate_url chk uri = Inr u))
   \<and> validate_url chk ''host'' = Inr ''http://host/api/''
   \<and> validate_url chk ''host/'' = Inr ''http://host/api/''
   \<and> validate_url chk ''host/api'' = Inr ''http://host/api/''
   \<and> validate_url chk ''http://host:8080'' = Inr ''http://host:8080/api/''"
proof (intro conjI impI)
  show "validate_url chk uri = Inl e \<longleftrightarrow>
      e = ValueError
      \<and> urlparse chk (if take 4 uri \<noteq> ''http'' then ''http://'' @ uri else uri) = Inl ValueError"
    using urlparse_raises [of chk "if take 4 uri \<noteq> ''http'' then ''http://'' @ uri else uri" e]
    by (auto simp: validate_url_raises_iff)
next
  assume "isascii uri \<and> CHR ''['' \<notin> set uri \<and> CHR '']'' \<notin> set uri"
  then show "\<exists>u. validate_url chk uri = Inr u" by (simp add: validate_url_returns)
next
  show "validate_url chk ''host'' = Inr ''http://host/api/''" by code_simp
next
  show "validate_url chk ''host/'' = Inr ''http://host/api/''" by code_simp
next
  show "validate_url chk ''host/api'' = Inr ''http://host/api/''" by code_simp
next
  show "validate_url chk ''http://host:8080'' = Inr ''http://host:8080/api/''" by code_simp
qed

theorem validate_url_normalises_witness:
  "isascii ''192.168.1.20:8080/api/''
   \<and> CHR ''['' \<notin> set ''192.168.1.20:8080/api/'' \<and> CHR '']'' \<notin> set ''192.168.1.20:8080/api/''
   \<and> (\<exists>u. validate_url (\<lambda>nl. True) ''192.168.1.20:8080/api/'' = Inr u)"
proof -
  have a: "isascii ''192.168.1.20:8080/api/''"
    by code_simp
  have b: "CHR ''['' \<notin> set ''192.168.1.20:8080/api/'' \<and> CHR '']'' \<notin> set ''192.168.1.20:8080/api/''"
    by simp
  from a b show ?thesis
    using validate_url_normalises
            [where uri = "''192.168.1.20:8080/api/''" and chk = "\<lambda>nl. True"]
    by blast
qed

text \<open>
  Counterexample to C4 as stated (\<^verbatim>\<open>validate_url\<close> never fails): on the input \<^verbatim>\<open>[\<close> the
  function parses \<^verbatim>\<open>http://[\<close>, and \<^verbatim>\<open>urlparse\<close> raises \<^verbatim>\<open>ValueError\<close> for the unmatched
  bracket in the authority.
\<close>

theorem validate_url_rejects_open_bracket: "validate_url (\<lambda>nl. True) ''['' = Inl ValueError"
  by code_simp

text \<open>
  C5. The command set is the six listed commands. \<^verbatim>\<open>post_system_command\<close> raises
  \<^verbatim>\<open>SystemCommandNotFound\<close> for every command outside the set and sends no request; for a
  command of the set, on a session with a client, a 200 response with a JSON body makes
  it return that decoded body.
\<close>

theorem post_system_command_checks_command:
  "set SYSTEM_COMMANDS
     = {''STANDBY'', ''REBOOT'', ''POWER_OFF'', ''RESTART'', ''RESTART_UI'', ''RESTART_CORE''}
   \<and> (cmd \<notin> set SYSTEM_COMMANDS \<longrightarrow>
        post_system_command srv r cmd
          = ([], Inl (SystemCommandNotFound ''Invalid System Command Supplied'')))
   \<and> (cmd \<in> set SYSTEM_COMMANDS \<and> client r = Inr (Some c)
        \<and> srv \<lparr>meth = POST, target = url r (''system?cmd='' @ cmd), cred = c, payload = None\<rparr>
             = Some \<lparr>status = 200, content = Some body\<rparr> \<longrightarrow>
        post_system_command srv r cmd
          = ([\<lparr>meth = POST, target = url r (''system?cmd='' @ cmd), cred = c, payload = None\<rparr>],
             Inr body))"
proof (intro conjI impI)
  show "set SYSTEM_COMMANDS
     = {''STANDBY'', ''REBOOT'', ''POWER_OFF'', ''RESTART'', ''RESTART_UI'', ''RESTART_CORE''}"
    by (simp add: SYSTEM_COMMANDS_def)
next
  assume "cmd \<notin> set SYSTEM_COMMANDS"
  then show "post_system_command srv r cmd
          = ([], Inl (SystemCommandNotFound ''Invalid System Command Supplied''))"
    by (simp add: post_system_command_def)
next
  assume a: "cmd \<in> set SYSTEM_COMMANDS \<and> client r = Inr (Some c)
        \<and> srv \<lparr>meth = POST, target = url r (''system?cmd='' @ cmd), cred = c, payload = None\<rparr>
             = Some \<lparr>status = 200, content = Some body\<rparr>"
  then have "send srv r POST (Inr (''system?cmd='' @ cmd)) None
     = ([\<lparr>meth = POST, target = url r (''system?cmd='' @ cmd), cred = c, payload = None\<rparr>],
        Inr \<lparr>status = 200, content = Some body\<rparr>)"
    by (simp add: send_with_client)
  with a show "post_system_command srv r cmd
          = ([\<lparr>meth = POST, target = url r (''system?cmd='' @ cmd), cred = c, payload = None\<rparr>],
             Inr body)"
    by (simp add: post_system_command_def raise_on_error_ok json_def)
qed

theorem post_system_command_checks_command_witness:
  "post_system_command (always \<lparr>status = 200, content = Some (PDict [])\<rparr>)
       (bare_session\<lparr>pin := Some ''1234''\<rparr>) ''BOGUS''
     = ([], Inl (SystemCommandNotFound ''Invalid System Command Supplied''))
   \<and> post_system_command (always \<lparr>status = 200, content = Some (PDict [])\<rparr>)
       (bare_session\<lparr>pin := Some ''1234''\<rparr>) ''REBOOT''
     = ([\<lparr>meth = POST, target = (''http://host/api/'', ''system?cmd=REBOOT''),
          cred = BasicAuth ''web-configurator'' ''1234'', payload = None\<rparr>],
        Inr (PDict []))"
proof -
  let ?srv = "always \<lparr>status = 200, content = Some (PDict [])\<rparr>"
  let ?r = "bare_session\<lparr>pin := Some ''1234''\<rparr>"
  have a: "post_system_command ?srv ?r ''BOGUS''
     = ([], Inl (SystemCommandNotFound ''Invalid System Command Supplied''))"
    using post_system_command_checks_command [where cmd = "''BOGUS''" and srv = ?srv and r = ?r]
    by (simp add: SYSTEM_COMMANDS_def)
  have b: "post_system_command ?srv ?r ''REBOOT''
     = ([\<lparr>meth = POST, target = url ?r (''system?cmd='' @ ''REBOOT''),
          cred = BasicAuth ''web-configurator'' ''1234'', payload = None\<rparr>],
        Inr (PDict []))"
    using post_system_command_checks_command
            [where cmd = "''REBOOT''" and srv = ?srv and r = ?r
               and c = "BasicAuth ''web-configurator'' ''1234''" and body = "PDict []"]
    by (simp add: SYSTEM_COMMANDS_def client_pin_session always_def)
  from a b show ?thesis by (simp add: url_bare_session)
qed

text \<open>
  C6. \<^verbatim>\<open>revoke_api_key\<close> fetches the key list and compares each key's \<^verbatim>\<open>name\<close> with
  \<open>key_name\<close> for equality. When every fetched key has a name and none equals \<open>key_name\<close>,
  it raises \<^verbatim>\<open>ApiKeyNotFound\<close> carrying \<open>key_name\<close>, and the only request sent is the GET (no
  DELETE). When a key with that name is in the list, the first such key's \<^verbatim>\<open>key_id\<close> is the
  one whose DELETE is sent.
\<close>

theorem revoke_api_key_by_exact_name:
  "client r = Inr (Some c)
   \<and> srv \<lparr>meth = GET, target = url r ''auth/api_keys'', cred = c, payload = None\<rparr> = Some resp
   \<and> status resp < 400
   \<longrightarrow>
   (content resp = Some (PList keys)
    \<and> (\<forall>k \<in> set keys. \<exists>n. subscript k ''name'' = Inr n \<and> n \<noteq> PStr key_name) \<longrightarrow>
      revoke_api_key srv r key_name
        = ([\<lparr>meth = GET, target = url r ''auth/api_keys'', cred = c, payload = None\<rparr>],
           Inl (ApiKeyNotFound key_name
                  (''API Key '' @ [CHR 0x27] @ key_name @ [CHR 0x27] @ '' not found.''))))
   \<and> (content resp = Some (PList (pre @ key # post))
        \<and> (\<forall>k \<in> set pre. \<exists>n. subscript k ''name'' = Inr n \<and> n \<noteq> PStr key_name)
        \<and> subscript key ''name'' = Inr (PStr key_name)
        \<and> subscript key ''key_id'' = Inr (PStr i) \<longrightarrow>
        fst (revoke_api_key srv r key_name)
          = [\<lparr>meth = GET, target = url r ''auth/api_keys'', cred = c, payload = None\<rparr>,
             \<lparr>meth = DELETE, target = url r (''auth/api_keys/'' @ i), cred = c, payload = None\<rparr>])"
proof (intro impI conjI)
  assume a: "client r = Inr (Some c)
   \<and> srv \<lparr>meth = GET, target = url r ''auth/api_keys'', cred = c, payload = None\<rparr> = Some resp
   \<and> status resp < 400"
  have g: "get_api_keys srv r
     = ([\<lparr>meth = GET, target = url r ''auth/api_keys'', cred = c, payload = None\<rparr>], Inr v)"
    if "content resp = Some v" for v
    using a that by (simp add: get_api_keys_def send_with_client raise_on_error_ok json_def)
  {
    assume b: "content resp = Some (PList keys)
      \<and> (\<forall>k \<in> set keys. \<exists>n. subscript k ''name'' = Inr n \<and> n \<noteq> PStr key_name)"
    then have "find_api_key_id keys key_name = Inr None" by (simp add: find_api_key_id_absent)
    then show "revoke_api_key srv r key_name
        = ([\<lparr>meth = GET, target = url r ''auth/api_keys'', cred = c, payload = None\<rparr>],
           Inl (ApiKeyNotFound key_name
                  (''API Key '' @ [CHR 0x27] @ key_name @ [CHR 0x27] @ '' not found.'')))"
      using b by (simp add: revoke_api_key_def g)
  }
  {
    assume b: "content resp = Some (PList (pre @ key # post))
        \<and> (\<forall>k \<in> set pre. \<exists>n. subscript k ''name'' = Inr n \<and> n \<noteq> PStr key_name)
        \<and> subscript key ''name'' = Inr (PStr key_name)
        \<and> subscript key ''key_id'' = Inr (PStr i)"
    then have f: "find_api_key_id (pre @ key # post) key_name = Inr (Some (PStr i))"
      by (simp add: find_api_key_id_first)
    obtain sent2 res2 where s2: "send srv r DELETE (Inr (''auth/api_keys/'' @ i)) None = (sent2, res2)"
      by (cases "send srv r DELETE (Inr (''auth/api_keys/'' @ i)) None")
    have l: "sent2 = [\<lparr>meth = DELETE, target = url r (''auth/api_keys/'' @ i), cred = c, payload = None\<rparr>]"
      using a s2 send_logs_request [of r c srv DELETE "''auth/api_keys/'' @ i" None] by simp
    have "revoke_api_key srv r key_name
      = ([\<lparr>meth = GET, target = url r ''auth/api_keys'', cred = c, payload = None\<rparr>] @ sent2,
         and_then res2 (\<lambda>resp. and_then (raise_on_error resp) (\<lambda>resp. Inr ())))"
      using b s2 by (simp add: revoke_api_key_def g f)
    then show "fst (revoke_api_key srv r key_name)
          = [\<lparr>meth = GET, target = url r ''auth/api_keys'', cred = c, payload = None\<rparr>,
             \<lparr>meth = DELETE, target = url r (''auth/api_keys/'' @ i), cred = c, payload = None\<rparr>]"
      using l by simp
  }
qed


theorem revoke_api_key_by_exact_name_witness:
  "revoke_api_key
     (always \<lparr>status = 200,
              content = Some (PList [PDict [(''name'', PStr ''other''), (''key_id'', PStr ''k1'')]])\<rparr>)
     (bare_session\<lparr>pin := Some ''1234''\<rparr>) ''missing''
   = ([\<lparr>meth = GET, target = (''http://host/api/'', ''auth/api_keys''),
        cred = BasicAuth ''web-configurator'' ''1234'', payload = None\<rparr>],
      Inl (ApiKeyNotFound ''missing'' (''API Key '' @ [CHR 0x27] @ ''missing'' @ [CHR 0x27] @ '' not found.'')))
   \<and> fst (revoke_api_key
     (always \<lparr>status = 200,
              content = Some (PList [PDict [(''name'', PStr ''other''), (''key_id'', PStr ''k1'')]])\<rparr>)
     (bare_session\<lparr>pin := Some ''1234''\<rparr>) ''other'')
   = [\<lparr>meth = GET, target = (''http://host/api/'', ''auth/api_keys''),
        cred = BasicAuth ''web-configurator'' ''1234'', payload = None\<rparr>,
      \<lparr>meth = DELETE, target = (''http://host/api/'', ''auth/api_keys/k1''),
        cred = BasicAuth ''web-configurator'' ''1234'', payload = None\<rparr>]"
proof -
  let ?key = "PDict [(''name'', PStr ''other''), (''key_id'', PStr ''k1'')]"
  let ?resp = "\<lparr>status = 200, content = Some (PList [?key])\<rparr>"
  let ?r = "bare_session\<lparr>pin := Some ''1234''\<rparr>"
  let ?c = "BasicAuth ''web-configurator'' ''1234''"
  have a: "revoke_api_key (always ?resp) ?r ''missing''
     = ([\<lparr>meth = GET, target = url ?r ''auth/api_keys'', cred = ?c, payload = None\<rparr>],
        Inl (ApiKeyNotFound ''missing'' (''API Key '' @ [CHR 0x27] @ ''missing'' @ [CHR 0x27] @ '' not found.'')))"
    using revoke_api_key_by_exact_name [where r = ?r and c = ?c and srv = "always ?resp" and resp = ?resp
                and keys = "[?key]" and key_name = "''missing''"]
    by (simp add: client_pin_session always_def)
  have b: "fst (revoke_api_key (always ?resp) ?r ''other'')
     = [\<lparr>meth = GET, target = url ?r ''auth/api_keys'', cred = ?c, payload = None\<rparr>,
        \<lparr>meth = DELETE, target = url ?r (''auth/api_keys/'' @ ''k1''), cred = ?c, payload = None\<rparr>]"
    using revoke_api_key_by_exact_name [where r = ?r and c = ?c and srv = "always ?resp" and resp = ?resp
                and pre = "[]" and key = ?key and post = "[]" and i = "''k1''"
                and key_name = "''other''"]
    by (simp add: client_pin_session always_def)
  from a b show ?thesis by (simp add: url_bare_session)
qed


text \<open>
  C7. On a session with a client, \<^verbatim>\<open>turn_on\<close> sends one PUT to
  \<^verbatim>\<open>entities/<id>/command\<close> with exactly the body \<^verbatim>\<open>{entity_id: id, cmd_id: "activity.on"}\<close>
  (\<^verbatim>\<open>turn_off\<close>: \<^verbatim>\<open>"activity.off"\<close>); on a 2xx response it sets the local state to \<^verbatim>\<open>"ON"\<close>
  (\<^verbatim>\<open>"OFF"\<close>) with no further request, so \<^verbatim>\<open>is_on\<close> is true after \<^verbatim>\<open>turn_on\<close> and false
  after \<^verbatim>\<open>turn_off\<close>.
\<close>

theorem turn_on_off_optimistic:
  "client r = Inr (Some c) \<and> 200 \<le> status resp \<and> status resp < 300 \<longrightarrow>
   (srv \<lparr>meth = PUT, target = url r (''entities/'' @ act_id a @ ''/command''), cred = c,
          payload = Some (PDict [(''entity_id'', PStr (act_id a)),
                                 (''cmd_id'', PStr ''activity.on'')])\<rparr> = Some resp \<longrightarrow>
      turn_on srv r a
        = ([\<lparr>meth = PUT, target = url r (''entities/'' @ act_id a @ ''/command''), cred = c,
              payload = Some (PDict [(''entity_id'', PStr (act_id a)),
                                     (''cmd_id'', PStr ''activity.on'')])\<rparr>],
           Inr (a\<lparr>act_state := PStr ''ON''\<rparr>))
      \<and> is_on (a\<lparr>act_state := PStr ''ON''\<rparr>))
   \<and> (srv \<lparr>meth = PUT, target = url r (''entities/'' @ act_id a @ ''/command''), cred = c,
          payload = Some (PDict [(''entity_id'', PStr (act_id a)),
                                 (''cmd_id'', PStr ''activity.off'')])\<rparr> = Some resp \<longrightarrow>
      turn_off srv r a
        = ([\<lparr>meth = PUT, target = url r (''entities/'' @ act_id a @ ''/command''), cred = c,
              payload = Some (PDict [(''entity_id'', PStr (act_id a)),
                                     (''cmd_id'', PStr ''activity.off'')])\<rparr>],
           Inr (a\<lparr>act_state := PStr ''OFF''\<rparr>))
      \<and> \<not> is_on (a\<lparr>act_state := PStr ''OFF''\<rparr>))"
  by (simp add: turn_on_def turn_off_def send_with_client raise_on_error_ok is_on_def)

theorem turn_on_off_optimistic_witness:
  "turn_on (always \<lparr>status = 200, content = None\<rparr>) (bare_session\<lparr>pin := Some ''1234''\<rparr>)
       movie_night
     = ([\<lparr>meth = PUT, target = (''http://host/api/'', ''entities/uc.main.movie/command''),
          cred = BasicAuth ''web-configurator'' ''1234'',
          payload = Some (PDict [(''entity_id'', PStr ''uc.main.movie''),
                                 (''cmd_id'', PStr ''activity.on'')])\<rparr>],
        Inr (movie_night\<lparr>act_state := PStr ''ON''\<rparr>))
   \<and> is_on (movie_night\<lparr>act_state := PStr ''ON''\<rparr>)
   \<and> turn_off (always \<lparr>status = 200, content = None\<rparr>) (bare_session\<lparr>pin := Some ''1234''\<rparr>)
       movie_night
     = ([\<lparr>meth = PUT, target = (''http://host/api/'', ''entities/uc.main.movie/command''),
          cred = BasicAuth ''web-configurator'' ''1234'',
          payload = Some (PDict [(''entity_id'', PStr ''uc.main.movie''),
                                 (''cmd_id'', PStr ''activity.off'')])\<rparr>],
        Inr (movie_night\<lparr>act_state := PStr ''OFF''\<rparr>))
   \<and> \<not> is_on (movie_night\<lparr>act_state := PStr ''OFF''\<rparr>)"
proof -
  have i: "act_id movie_night = ''uc.main.movie''"
    by (simp add: movie_night_def)
  show ?thesis
    using turn_on_off_optimistic
            [where r = "bare_session\<lparr>pin := Some ''1234''\<rparr>"
               and c = "BasicAuth ''web-configurator'' ''1234''"
               and resp = "\<lparr>status = 200, content = None\<rparr>"
               and srv = "always \<lparr>status = 200, content = None\<rparr>" and a = movie_night]
    by (simp add: client_pin_session always_def url_bare_session i)
qed

text \<open>
  C8. \<^verbatim>\<open>Activity.update\<close> fetches the activities list once and overwrites the local state
  with the state of the first entry whose \<^verbatim>\<open>entity_id\<close> equals this activity's id. When
  every fetched entry has an \<^verbatim>\<open>entity_id\<close> and none equals this id, nothing is raised:
  \<^verbatim>\<open>get_activity_state\<close> returns \<^verbatim>\<open>None\<close>, the local state becomes \<^verbatim>\<open>None\<close> and \<^verbatim>\<open>is_on\<close> is
  false.
\<close>

theorem update_overwrites_state:
  "client r = Inr (Some c)
   \<and> srv \<lparr>meth = GET, target = url r ''activities'', cred = c, payload = None\<rparr> = Some resp
   \<and> status resp < 400
   \<longrightarrow>
   (content resp = Some (PList acts)
    \<and> (\<forall>ca \<in> set acts. \<exists>i. subscript ca ''entity_id'' = Inr i \<and> i \<noteq> PStr (act_id a)) \<longrightarrow>
      get_activity_state srv r (act_id a)
        = ([\<lparr>meth = GET, target = url r ''activities'', cred = c, payload = None\<rparr>], Inr PNone)
      \<and> update srv r a
        = ([\<lparr>meth = GET, target = url r ''activities'', cred = c, payload = None\<rparr>],
           Inr (a\<lparr>act_state := PNone\<rparr>))
      \<and> \<not> is_on (a\<lparr>act_state := PNone\<rparr>))
   \<and> (content resp = Some (PList (pre @ ca # post))
        \<and> (\<forall>x \<in> set pre. \<exists>i. subscript x ''entity_id'' = Inr i \<and> i \<noteq> PStr (act_id a))
        \<and> subscript ca ''entity_id'' = Inr (PStr (act_id a))
        \<and> subscript ca ''attributes'' = Inr at
        \<and> subscript at ''state'' = Inr s \<longrightarrow>
      update srv r a
        = ([\<lparr>meth = GET, target = url r ''activities'', cred = c, payload = None\<rparr>],
           Inr (a\<lparr>act_state := s\<rparr>)))"
  by (simp add: update_def get_activity_state_fetched find_activity_state_absent
        find_activity_state_first is_on_def)

theorem update_overwrites_state_witness:
  "update (always \<lparr>status = 200, content = Some (PList [activity_entry ''uc.main.tv'' ''ON''])\<rparr>)
       (bare_session\<lparr>pin := Some ''1234''\<rparr>) movie_night
     = ([\<lparr>meth = GET, target = (''http://host/api/'', ''activities''),
          cred = BasicAuth ''web-configurator'' ''1234'', payload = None\<rparr>],
        Inr (movie_night\<lparr>act_state := PNone\<rparr>))
   \<and> \<not> is_on (movie_night\<lparr>act_state := PNone\<rparr>)
   \<and> update (always \<lparr>status = 200,
                      content = Some (PList [activity_entry ''uc.main.tv'' ''OFF'',
                                             activity_entry ''uc.main.movie'' ''ON''])\<rparr>)
       (bare_session\<lparr>pin := Some ''1234''\<rparr>) movie_night
     = ([\<lparr>meth = GET, target = (''http://host/api/'', ''activities''),
          cred = BasicAuth ''web-configurator'' ''1234'', payload = None\<rparr>],
        Inr (movie_night\<lparr>act_state := PStr ''ON''\<rparr>))"
proof -
  let ?r = "bare_session\<lparr>pin := Some ''1234''\<rparr>"
  let ?c = "BasicAuth ''web-configurator'' ''1234''"
  let ?r1 = "\<lparr>status = 200, content = Some (PList [activity_entry ''uc.main.tv'' ''ON''])\<rparr>"
  let ?r2 = "\<lparr>status = 200,
              content = Some (PList [activity_entry ''uc.main.tv'' ''OFF'',
                                     activity_entry ''uc.main.movie'' ''ON''])\<rparr>"
  have i: "act_id movie_night = ''uc.main.movie''"
    by (simp add: movie_night_def)
  have a: "update (always ?r1) ?r movie_night
     = ([\<lparr>meth = GET, target = url ?r ''activities'', cred = ?c, payload = None\<rparr>],
        Inr (movie_night\<lparr>act_state := PNone\<rparr>))
     \<and> \<not> is_on (movie_night\<lparr>act_state := PNone\<rparr>)"
    using update_overwrites_state
            [where r = ?r and c = ?c and srv = "always ?r1" and resp = ?r1 and a = movie_night
               and acts = "[activity_entry ''uc.main.tv'' ''ON'']"]
    by (simp add: client_pin_session always_def i activity_entry_def)
  have b: "update (always ?r2) ?r movie_night
     = ([\<lparr>meth = GET, target = url ?r ''activities'', cred = ?c, payload = None\<rparr>],
        Inr (movie_night\<lparr>act_state := PStr ''ON''\<rparr>))"
    using update_overwrites_state
            [where r = ?r and c = ?c and srv = "always ?r2" and resp = ?r2 and a = movie_night
               and pre = "[activity_entry ''uc.main.tv'' ''OFF'']"
               and ca = "activity_entry ''uc.main.movie'' ''ON''" and post = "[]"
               and at = "PDict [(''state'', PStr ''ON'')]" and s = "PStr ''ON''"]
    by (simp add: client_pin_session always_def i activity_entry_def)
  from a b show ?thesis by (simp add: url_bare_session)
qed


text \<open>
  C9. At every point at most one credential is active, the token first: \<^verbatim>\<open>client\<close> selects
  bearer authentication exactly when \<open>apikey\<close> is a non-empty string, basic authentication
  with the PIN exactly when \<open>apikey\<close> is falsy and \<open>pin\<close> is a non-empty string, and no client
  at all exactly when both are unset. After a \<^verbatim>\<open>create_api_key\<close> that returns a non-empty
  key, that key is stored and \<^verbatim>\<open>client\<close> selects it as the bearer token.
\<close>

theorem client_selects_credential:
  "(client r = Inr (Some (Bearer k)) \<longleftrightarrow> apikey r = PStr k \<and> k \<noteq> [])
   \<and> (client r = Inr (Some (BasicAuth u p)) \<longleftrightarrow>
        \<not> truthy (apikey r) \<and> pin r = Some p \<and> p \<noteq> [] \<and> u = AUTH_USERNAME)
   \<and> (client r = Inr None \<longleftrightarrow> \<not> truthy (apikey r) \<and> (pin r = None \<or> pin r = Some []))
   \<and> (create_api_key srv r = (sent, Inr (r', PStr k')) \<and> k' \<noteq> [] \<longrightarrow>
        apikey r' = PStr k' \<and> client r' = Inr (Some (Bearer k')))"
proof (intro conjI impI)
  show "client r = Inr (Some (Bearer k)) \<longleftrightarrow> apikey r = PStr k \<and> k \<noteq> []"
    by (cases "apikey r") (auto simp: client_def split: option.splits)
next
  show "client r = Inr (Some (BasicAuth u p)) \<longleftrightarrow>
        \<not> truthy (apikey r) \<and> pin r = Some p \<and> p \<noteq> [] \<and> u = AUTH_USERNAME"
    by (cases "apikey r") (auto simp: client_def split: option.splits)
next
  show "client r = Inr None \<longleftrightarrow> \<not> truthy (apikey r) \<and> (pin r = None \<or> pin r = Some [])"
    by (rule client_None_iff)
next
  assume a: "create_api_key srv r = (sent, Inr (r', PStr k')) \<and> k' \<noteq> []"
  then have "r' = r\<lparr>apikey := PStr k'\<rparr>"
    using create_api_key_stores_key by blast
  with a show "apikey r' = PStr k'" "client r' = Inr (Some (Bearer k'))"
    by (simp_all add: client_def)
qed

theorem client_selects_credential_witness:
  "create_api_key
       (always \<lparr>status = 200, content = Some (PDict [(''api_key'', PStr ''new-key'')])\<rparr>)
       (bare_session\<lparr>pin := Some ''1234''\<rparr>)
     = ([\<lparr>meth = POST, target = (''http://host/api/'', ''auth/api_keys''),
          cred = BasicAuth ''web-configurator'' ''1234'',
          payload = Some (PDict [(''name'', PStr ''pyUnfoldedCircle''),
                                 (''scopes'', PList [PStr ''admin''])])\<rparr>],
        Inr (bare_session\<lparr>pin := Some ''1234'', apikey := PStr ''new-key''\<rparr>, PStr ''new-key''))
   \<and> client (bare_session\<lparr>pin := Some ''1234'', apikey := PStr ''new-key''\<rparr>)
     = Inr (Some (Bearer ''new-key''))"
proof -
  let ?srv = "always \<lparr>status = 200, content = Some (PDict [(''api_key'', PStr ''new-key'')])\<rparr>"
  let ?rq = "\<lparr>meth = POST, target = (''http://host/api/'', ''auth/api_keys''),
          cred = BasicAuth ''web-configurator'' ''1234'',
          payload = Some (PDict [(''name'', PStr ''pyUnfoldedCircle''),
                                 (''scopes'', PList [PStr ''admin''])])\<rparr>"
  have e: "create_api_key ?srv (bare_session\<lparr>pin := Some ''1234''\<rparr>)
     = ([?rq], Inr (bare_session\<lparr>pin := Some ''1234'', apikey := PStr ''new-key''\<rparr>,
                    PStr ''new-key''))"
    by (simp add: create_api_key_def send_def client_def bare_session_def always_def url_def
          raise_on_error_def ok_def json_def AUTH_APIKEY_NAME_def AUTH_USERNAME_def)
  have "client (bare_session\<lparr>pin := Some ''1234'', apikey := PStr ''new-key''\<rparr>)
     = Inr (Some (Bearer ''new-key''))"
    using client_selects_credential
            [where srv = ?srv and r = "bare_session\<lparr>pin := Some ''1234''\<rparr>" and sent = "[?rq]"
               and r' = "bare_session\<lparr>pin := Some ''1234'', apikey := PStr ''new-key''\<rparr>"
               and k' = "''new-key''"] e
    by simp
  with e show ?thesis by simp
qed

text \<open>
  Counterexample to C9 as stated (exactly one credential is active at every point): the
  session that \<^verbatim>\<open>Remote("host")\<close> constructs holds neither a token nor a PIN, and \<^verbatim>\<open>client\<close>
  selects no credential for it.
\<close>

theorem bare_session_has_no_credential:
  "Remote_init (\<lambda>nl. True) ''host'' None PNone = Inr bare_session
   \<and> apikey bare_session = PNone \<and> pin bare_session = None
   \<and> client bare_session = Inr None"
  by (simp add: Remote_init_host client_bare_session) (simp add: bare_session_def)

text \<open>
  C10. On a session where neither \<open>apikey\<close> nor \<open>pin\<close> is set, \<^verbatim>\<open>client\<close> returns \<^verbatim>\<open>None\<close>, and
  every operation that reaches its \<^verbatim>\<open>async with self.client()\<close> statement fails there, before
  any request is sent, with the error of entering \<^verbatim>\<open>None\<close> as a context manager: neither
  \<^verbatim>\<open>AuthenticationError\<close> nor \<^verbatim>\<open>HTTPError\<close>.
\<close>

theorem no_credential_no_client:
  "\<not> truthy (apikey r) \<and> (pin r = None \<or> pin r = Some []) \<longrightarrow>
     client r = Inr None
   \<and> send srv r m p body = ([], Inl NotAContextManager)
   \<and> can_connect srv r = ([], Inl NotAContextManager)
   \<and> get_api_keys srv r = ([], Inl NotAContextManager)
   \<and> create_api_key srv r = ([], Inl NotAContextManager)
   \<and> revoke_api_key srv r key_name = ([], Inl NotAContextManager)
   \<and> get_activity_state srv r entity_id = ([], Inl NotAContextManager)
   \<and> (cmd \<in> set SYSTEM_COMMANDS \<longrightarrow>
        post_system_command srv r cmd = ([], Inl NotAContextManager))
   \<and> (command_body r device command kw = Inr b \<and> resolve_emitter r kw = Inr em \<longrightarrow>
        send_remote_command srv r device command repeat kw = ([], Inl NotAContextManager))
   \<and> turn_on srv r a = ([], Inl NotAContextManager)
   \<and> turn_off srv r a = ([], Inl NotAContextManager)
   \<and> update srv r a = ([], Inl NotAContextManager)"
proof (intro impI)
  assume "\<not> truthy (apikey r) \<and> (pin r = None \<or> pin r = Some [])"
  then have c: "client r = Inr None" by (simp add: client_None_iff)
  have s: "send srv r m' p' body' = ([], Inl NotAContextManager)" for m' p' body'
    using c by (rule send_without_client)
  have g: "get_api_keys srv r = ([], Inl NotAContextManager)"
    by (simp add: get_api_keys_def s)
  have st: "get_activity_state srv r i = ([], Inl NotAContextManager)" for i
    by (simp add: get_activity_state_def s)
  show "client r = Inr None
   \<and> send srv r m p body = ([], Inl NotAContextManager)
   \<and> can_connect srv r = ([], Inl NotAContextManager)
   \<and> get_api_keys srv r = ([], Inl NotAContextManager)
   \<and> create_api_key srv r = ([], Inl NotAContextManager)
   \<and> revoke_api_key srv r key_name = ([], Inl NotAContextManager)
   \<and> get_activity_state srv r entity_id = ([], Inl NotAContextManager)
   \<and> (cmd \<in> set SYSTEM_COMMANDS \<longrightarrow>
        post_system_command srv r cmd = ([], Inl NotAContextManager))
   \<and> (command_body r device command kw = Inr b \<and> resolve_emitter r kw = Inr em \<longrightarrow>
        send_remote_command srv r device command repeat kw = ([], Inl NotAContextManager))
   \<and> turn_on srv r a = ([], Inl NotAContextManager)
   \<and> turn_off srv r a = ([], Inl NotAContextManager)
   \<and> update srv r a = ([], Inl NotAContextManager)"
  proof (intro conjI impI)
    show "client r = Inr None" by (rule c)
    show "send srv r m p body = ([], Inl NotAContextManager)" by (rule s)
    show "can_connect srv r = ([], Inl NotAContextManager)" by (simp add: can_connect_def s)
    show "get_api_keys srv r = ([], Inl NotAContextManager)" by (rule g)
    show "create_api_key srv r = ([], Inl NotAContextManager)" by (simp add: create_api_key_def s)
    show "revoke_api_key srv r key_name = ([], Inl NotAContextManager)"
      by (simp add: revoke_api_key_def g)
    show "get_activity_state srv r entity_id = ([], Inl NotAContextManager)" by (rule st)
    show "post_system_command srv r cmd = ([], Inl NotAContextManager)"
      if "cmd \<in> set SYSTEM_COMMANDS"
      using that by (simp add: post_system_command_def s)
    show "send_remote_command srv r device command repeat kw = ([], Inl NotAContextManager)"
      if "command_body r device command kw = Inr b \<and> resolve_emitter r kw = Inr em"
      using that by (simp add: send_remote_command_def s)
    show "turn_on srv r a = ([], Inl NotAContextManager)" by (simp add: turn_on_def s)
    show "turn_off srv r a = ([], Inl NotAContextManager)" by (simp add: turn_off_def s)
    show "update srv r a = ([], Inl NotAContextManager)" by (simp add: update_def st)
  qed
qed

theorem no_credential_no_client_witness:
  "client bare_session = Inr None
   \<and> can_connect (always \<lparr>status = 200, content = None\<rparr>) bare_session
       = ([], Inl NotAContextManager)
   \<and> post_system_command (always \<lparr>status = 200, content = None\<rparr>) bare_session ''REBOOT''
       = ([], Inl NotAContextManager)
   \<and> turn_on (always \<lparr>status = 200, content = None\<rparr>) bare_session movie_night
       = ([], Inl NotAContextManager)
   \<and> send_remote_command (always \<lparr>status = 200, content = None\<rparr>)
         (bare_session\<lparr>docks := [\<lparr>name = PStr ''Dock'', device_id = PStr ''uc.dock''\<rparr>],
                        ir_codesets := [\<lparr>name = PStr ''TV'', device_id = PStr ''uc.tv''\<rparr>]\<rparr>)
         ''TV'' ''POWER'' 0 \<lparr>kw_code = None, kw_format = None, kw_dock = None, kw_port = None\<rparr>
       = ([], Inl NotAContextManager)"
proof -
  let ?srv = "always \<lparr>status = 200, content = None\<rparr>"
  let ?r = "bare_session\<lparr>docks := [\<lparr>name = PStr ''Dock'', device_id = PStr ''uc.dock''\<rparr>],
                        ir_codesets := [\<lparr>name = PStr ''TV'', device_id = PStr ''uc.tv''\<rparr>]\<rparr>"
  let ?kw = "\<lparr>kw_code = None, kw_format = None, kw_dock = None, kw_port = None\<rparr>"
  have a: "client bare_session = Inr None
     \<and> can_connect ?srv bare_session = ([], Inl NotAContextManager)
     \<and> post_system_command ?srv bare_session ''REBOOT'' = ([], Inl NotAContextManager)
     \<and> turn_on ?srv bare_session movie_night = ([], Inl NotAContextManager)"
    using no_credential_no_client
            [where r = bare_session and srv = ?srv and cmd = "''REBOOT''" and a = movie_night]
    by (simp add: bare_session_def SYSTEM_COMMANDS_def)
  have b: "send_remote_command ?srv ?r ''TV'' ''POWER'' 0 ?kw = ([], Inl NotAContextManager)"
    using no_credential_no_client
            [where r = ?r and srv = ?srv and device = "''TV''" and command = "''POWER''"
               and kw = ?kw and repeat = 0
               and b = "[(''codeset_id'', PStr ''uc.tv''), (''cmd_id'', PStr ''POWER'')]"
               and em = "EmitterValue (PStr ''uc.dock'')"]
    by (simp add: bare_session_def command_body_def resolve_emitter_def)
  from a b show ?thesis by simp
qed

end
